theory Spec2Isabelle
  imports Complex_Main "HOL-Library.Monad_Syntax"
begin

section \<open>Scalars, memory and dense matrices\<close>

text \<open>
  The program is \<^verbatim>\<open>CeresMatrixManifolds.cpp\<close>: the first order function
  \<^verbatim>\<open>MatrixDenoising\<close> and the driver \<^verbatim>\<open>solveGradientProblem\<close>.

  A \<^verbatim>\<open>double\<close> is modelled by a \<^typ>\<open>real\<close>: the arithmetic is exact, and rounding,
  overflow to infinity and NaN are outside the model. The raw buffers the functor
  receives (\<^verbatim>\<open>const double* parameters\<close>, \<^verbatim>\<open>double* cost\<close>,
  \<^verbatim>\<open>double* gradient\<close>) and the coefficients of the matrix behind the reference
  \<^verbatim>\<open>MatrixXd &A\<close> live in one memory of cells, so that two pointers may designate the
  same cell. A cell that is not allocated holds \<open>None\<close>; an access to it is undefined
  behaviour in the source and the result \<open>None\<close> in the model.
\<close>

type_synonym addr = nat

type_synonym memory = "addr \<Rightarrow> real option"

definition allocated :: "memory \<Rightarrow> addr \<Rightarrow> nat \<Rightarrow> bool" where
  "allocated m p n = list_all (\<lambda>i. m (p + i) \<noteq> None) [0..<n]"

definition load :: "memory \<Rightarrow> addr \<Rightarrow> nat \<Rightarrow> real list option" where
  "load m p n =
     (if allocated m p n then Some (map (\<lambda>i. the (m (p + i))) [0..<n]) else None)"

fun write_mem :: "memory \<Rightarrow> addr \<Rightarrow> real list \<Rightarrow> memory" where
  "write_mem m p [] = m"
| "write_mem m p (x # xs) = write_mem (m(p \<mapsto> x)) (Suc p) xs"

definition store :: "memory \<Rightarrow> addr \<Rightarrow> real list \<Rightarrow> memory option" where
  "store m p xs = (if allocated m p (length xs) then Some (write_mem m p xs) else None)"

text \<open>The memory whose allocated cells are those of one block at address 0.\<close>

definition memory_of :: "real list \<Rightarrow> memory" where
  "memory_of xs = (\<lambda>p. if p < length xs then Some (xs ! p) else None)"

text \<open>
  A matrix value (\<^verbatim>\<open>MatrixXd\<close> passed or returned by value): its dimensions and its
  coefficients in storage order (column major).
\<close>

record MatrixXd =
  rows :: nat
  cols :: nat
  coeffs :: "real list"

text \<open>
  The storage of a matrix object that lives with the caller (Eigen's \<^verbatim>\<open>DenseStorage\<close>:
  a pointer to the coefficients and the two dimensions), and a \<^verbatim>\<open>Map\<close>: a view of
  a raw buffer as a matrix of the given dimensions.
\<close>

record DenseStorage =
  m_data :: addr
  m_rows :: nat
  m_cols :: nat

record MapXd =
  map_data :: addr
  map_rows :: nat
  map_cols :: nat

definition Map_eval :: "memory \<Rightarrow> MapXd \<Rightarrow> MatrixXd option" where
  "Map_eval m P = do {
     xs \<leftarrow> load m (map_data P) (map_rows P * map_cols P);
     Some \<lparr>rows = map_rows P, cols = map_cols P, coeffs = xs\<rparr>
   }"

text \<open>
  Assignment to a \<^verbatim>\<open>Map\<close>: it cannot be resized, so the dimensions must agree
  (a matrix value of Eigen always has \<open>rows * cols\<close> coefficients).
\<close>

definition Map_assign :: "memory \<Rightarrow> MapXd \<Rightarrow> MatrixXd \<Rightarrow> memory option" where
  "Map_assign m P M =
     (if map_rows P = rows M \<and> map_cols P = cols M \<and> length (coeffs M) = rows M * cols M
      then store m (map_data P) (coeffs M) else None)"

text \<open>
  Eigen's coefficientwise difference (an assertion fails when the dimensions differ) and
  its \<^verbatim>\<open>norm()\<close>, the square root of \<^verbatim>\<open>squaredNorm()\<close>, the sum of
  \<^verbatim>\<open>abs2\<close> of the coefficients.
\<close>

definition minus_MatrixXd :: "MatrixXd \<Rightarrow> MatrixXd \<Rightarrow> MatrixXd option" where
  "minus_MatrixXd X Y =
     (if rows X = rows Y \<and> cols X = cols Y
      then Some \<lparr>rows = rows X, cols = cols X, coeffs = map2 (-) (coeffs X) (coeffs Y)\<rparr>
      else None)"

definition squaredNorm :: "MatrixXd \<Rightarrow> real" where
  "squaredNorm M = sum_list (map (\<lambda>x. x * x) (coeffs M))"

definition norm_MatrixXd :: "MatrixXd \<Rightarrow> real" where
  "norm_MatrixXd M = sqrt (squaredNorm M)"

text \<open>The negation \<^verbatim>\<open>-M\<close>, coefficientwise.\<close>

definition uminus_MatrixXd :: "MatrixXd \<Rightarrow> MatrixXd" where
  "uminus_MatrixXd M = M\<lparr>coeffs := map uminus (coeffs M)\<rparr>"

text \<open>
  The Frobenius norm in the words of the specification: the square root of the sum of
  the squared entries.
\<close>

definition frobenius_norm :: "real list \<Rightarrow> real" where
  "frobenius_norm es = sqrt (\<Sum>e\<leftarrow>es. e\<^sup>2)"

section \<open>The cost functor \<^verbatim>\<open>MatrixDenoising\<close>\<close>

text \<open>
  The functor has one member, the reference \<^verbatim>\<open>MatrixXd &A\<close>. The world it runs in
  is the matrix object the reference designates and the memory.
\<close>

record world =
  A :: DenseStorage
  heap :: memory

text \<open>The value of the matrix behind the reference, read from the memory.\<close>

definition deref_A :: "world \<Rightarrow> MatrixXd option" where
  "deref_A w = do {
     xs \<leftarrow> load (heap w) (m_data (A w)) (m_rows (A w) * m_cols (A w));
     Some \<lparr>rows = m_rows (A w), cols = m_cols (A w), coeffs = xs\<rparr>
   }"

text \<open>
  \<^verbatim>\<open>int NumParameters() const { return A.rows()*A.cols(); }\<close>
  The product of the two \<^verbatim>\<open>Eigen::Index\<close> values is converted to the 32-bit
  \<^verbatim>\<open>int\<close> the interface returns: the low 32 bits, read as two's complement.
\<close>

definition int_of_Index :: "int \<Rightarrow> int" where
  "int_of_Index n = signed_take_bit 31 n"

definition NumParameters :: "world \<Rightarrow> int" where
  "NumParameters w = int_of_Index (int (m_rows (A w)) * int (m_cols (A w)))"

text \<open>
  In the next three functions \<open>a\<close> is the value of \<^verbatim>\<open>A\<close> at the time of the call.

  \<^verbatim>\<open>double cost = (X - A).norm(); return 0.5*cost;\<close>
\<close>

definition costFrobenius :: "MatrixXd \<Rightarrow> MatrixXd \<Rightarrow> real option" where
  "costFrobenius a X = do {
     d \<leftarrow> minus_MatrixXd X a;
     let cost = norm_MatrixXd d;
     Some (0.5 * cost)
   }"

text \<open>\<^verbatim>\<open>return X - A;\<close>\<close>

definition gradientFrobenius :: "MatrixXd \<Rightarrow> MatrixXd \<Rightarrow> MatrixXd option" where
  "gradientFrobenius a X = minus_MatrixXd X a"

text \<open>
  \<^verbatim>\<open>Grad = gradientFrobenius(X); double cost = Grad.norm(); return 0.5*cost;\<close>
  with \<^verbatim>\<open>Grad\<close> a \<^verbatim>\<open>Map\<close> of the gradient buffer: the difference is computed into
  a temporary, stored through the view, and the norm is taken of what the view then
  holds.
\<close>

definition costGradientFrobenius ::
  "MatrixXd \<Rightarrow> memory \<Rightarrow> MatrixXd \<Rightarrow> MapXd \<Rightarrow> (real \<times> memory) option" where
  "costGradientFrobenius a m X Grad = do {
     g \<leftarrow> gradientFrobenius a X;
     m' \<leftarrow> Map_assign m Grad g;
     G \<leftarrow> Map_eval m' Grad;
     let cost = norm_MatrixXd G;
     Some (0.5 * cost, m')
   }"

text \<open>
  \<^verbatim>\<open>Evaluate(parameters, cost, gradient)\<close>: \<open>gradient = None\<close> is the null pointer.
  The result is the returned \<^verbatim>\<open>bool\<close> and the world after the call.
\<close>

definition Evaluate :: "world \<Rightarrow> addr \<Rightarrow> addr \<Rightarrow> addr option \<Rightarrow> (bool \<times> world) option" where
  "Evaluate w parameters cost gradient = do {
     let P0 = \<lparr>map_data = parameters, map_rows = m_rows (A w), map_cols = m_cols (A w)\<rparr>;
     (case gradient of
        None \<Rightarrow> do {
          X \<leftarrow> Map_eval (heap w) P0;
          a \<leftarrow> deref_A w;
          c \<leftarrow> costFrobenius a X;
          h \<leftarrow> store (heap w) cost [c];
          Some (True, w\<lparr>heap := h\<rparr>)
        }
      | Some g \<Rightarrow> do {
          let eGrad = \<lparr>map_data = g, map_rows = m_rows (A w), map_cols = m_cols (A w)\<rparr>;
          X \<leftarrow> Map_eval (heap w) P0;
          a \<leftarrow> deref_A w;
          (c, h1) \<leftarrow> costGradientFrobenius a (heap w) X eGrad;
          h2 \<leftarrow> store h1 cost [c];
          Some (True, w\<lparr>heap := h2\<rparr>)
        })
   }"

subsection \<open>Sequences of calls\<close>

datatype call =
  CallEvaluate addr addr "addr option"
| CallCostFrobenius MatrixXd
| CallGradientFrobenius MatrixXd
| CallNumParameters

text \<open>
  One call, as a step on the world. The three calls that return by value leave the world
  as it is; a failed Eigen assertion or an invalid access gives \<open>None\<close>.
\<close>

fun step :: "world \<Rightarrow> call \<Rightarrow> world option" where
  "step w (CallEvaluate parameters cost gradient) =
     map_option snd (Evaluate w parameters cost gradient)"
| "step w (CallCostFrobenius X) = do { a \<leftarrow> deref_A w; _ \<leftarrow> costFrobenius a X; Some w }"
| "step w (CallGradientFrobenius X) = do { a \<leftarrow> deref_A w; _ \<leftarrow> gradientFrobenius a X; Some w }"
| "step w CallNumParameters = (let _ = NumParameters w in Some w)"

fun run :: "world \<Rightarrow> call list \<Rightarrow> world option" where
  "run w [] = Some w"
| "run w (c # cs) = do { w' \<leftarrow> step w c; run w' cs }"

text \<open>
  The cells of the cost and gradient buffers a call supplies, for a target of dimensions
  \<open>r\<close> and \<open>k\<close>, and the cells that hold the coefficients of the target.
\<close>

fun buffers :: "nat \<Rightarrow> nat \<Rightarrow> call \<Rightarrow> addr set" where
  "buffers r k (CallEvaluate parameters cost None) = {cost}"
| "buffers r k (CallEvaluate parameters cost (Some g)) = {cost} \<union> {g ..< g + r * k}"
| "buffers r k _ = {}"

definition storage :: "DenseStorage \<Rightarrow> addr set" where
  "storage S = {m_data S ..< m_data S + m_rows S * m_cols S}"

text \<open>
  A world to run the functor in: the 2 by 2 target with the coefficients 1, 2, 3, 4 at
  address 0, a candidate with the coefficients 1, 4, 3, 4 at address 4, a cost cell at
  address 8 and a gradient buffer of four cells at address 9.
\<close>

definition example_world :: world where
  "example_world = \<lparr>A = \<lparr>m_data = 0, m_rows = 2, m_cols = 2\<rparr>,
                     heap = memory_of [1, 2, 3, 4, 1, 4, 3, 4, 0, 0, 0, 0, 0]\<rparr>"

section \<open>The solver driver\<close>

datatype LoggingType = SILENT | PER_MINIMIZER_ITERATION

datatype LineSearchDirectionType =
  STEEPEST_DESCENT | NONLINEAR_CONJUGATE_GRADIENT | LBFGS | BFGS

datatype LineSearchType = ARMIJO | WOLFE

text \<open>
  The fields of \<^verbatim>\<open>GradientProblemSolver::Options\<close> the driver assigns; the other
  fields of the library's structure are the extension of the record.
\<close>

record Options =
  max_num_iterations :: int
  logging_type :: LoggingType
  minimizer_progress_to_stdout :: bool
  function_tolerance :: real
  gradient_tolerance :: real
  line_search_direction_type :: LineSearchDirectionType
  line_search_type :: LineSearchType

text \<open>
  The assignments of \<^verbatim>\<open>solveGradientProblem\<close> to the default constructed options
  (\<open>defaults\<close>: the library's constructor is not part of the program).
\<close>

definition configure :: "'z Options_scheme \<Rightarrow> 'z Options_scheme" where
  "configure defaults = defaults
     \<lparr> max_num_iterations := 200,
       logging_type := PER_MINIMIZER_ITERATION,
       minimizer_progress_to_stdout := True,
       function_tolerance := 1 / 10 ^ 8,
       gradient_tolerance := 1 / 10 ^ 8,
       line_search_direction_type := LBFGS,
       line_search_type := WOLFE \<rparr>"

text \<open>
  The driver: the options are built, then \<^verbatim>\<open>ceres::Solve\<close> (the library's solver,
  a parameter here) is called once with them, the problem and the pointer to the
  coefficients of the solution; its summary is returned.
\<close>

definition solveGradientProblem ::
  "('z Options_scheme \<Rightarrow> 'p \<Rightarrow> addr \<Rightarrow> 's) \<Rightarrow> 'z Options_scheme \<Rightarrow> 'p \<Rightarrow> DenseStorage \<Rightarrow> 's" where
  "solveGradientProblem Solve defaults gradientProblem solution =
     (let options = configure defaults;
          summary = Solve options gradientProblem (m_data solution)
      in summary)"

section \<open>Reading and writing the memory\<close>

lemma allocated_iff: "allocated m p n \<longleftrightarrow> (\<forall>i<n. m (p + i) \<noteq> None)"
  by (auto simp: allocated_def list_all_iff)

lemma load_Some_iff:
  "load m p n = Some xs \<longleftrightarrow> length xs = n \<and> (\<forall>i<n. m (p + i) = Some (xs ! i))"
proof
  assume "load m p n = Some xs"
  then have al: "allocated m p n" and xs: "xs = map (\<lambda>i. the (m (p + i))) [0..<n]"
    by (auto simp: load_def split: if_splits)
  from al xs show "length xs = n \<and> (\<forall>i<n. m (p + i) = Some (xs ! i))"
    by (auto simp: allocated_iff)
next
  assume r: "length xs = n \<and> (\<forall>i<n. m (p + i) = Some (xs ! i))"
  then have "allocated m p n" by (simp add: allocated_iff)
  moreover from r have "map (\<lambda>i. the (m (p + i))) [0..<n] = xs"
    by (intro nth_equalityI) simp_all
  ultimately show "load m p n = Some xs" by (simp add: load_def)
qed

lemma load_length: "load m p n = Some xs \<Longrightarrow> length xs = n"
  by (simp add: load_Some_iff)

lemma load_cong: "(\<And>i. i < n \<Longrightarrow> m' (p + i) = m (p + i)) \<Longrightarrow> load m' p n = load m p n"
  by (simp add: load_def allocated_iff)

lemma write_mem_outside: "q \<notin> {p ..< p + length xs} \<Longrightarrow> write_mem m p xs q = m q"
  by (induction xs arbitrary: m p) auto

lemma write_mem_inside: "i < length xs \<Longrightarrow> write_mem m p xs (p + i) = Some (xs ! i)"
proof (induction xs arbitrary: m p i)
  case Nil
  then show ?case by simp
next
  case (Cons x xs)
  show ?case
  proof (cases i)
    case 0
    then show ?thesis by (simp add: write_mem_outside)
  next
    case (Suc j)
    with Cons.prems have "j < length xs" by simp
    from Cons.IH [OF this, of "m(p \<mapsto> x)" "Suc p"] Suc show ?thesis
      by (simp del: fun_upd_apply)
  qed
qed

lemma write_mem_allocated: "m q \<noteq> None \<Longrightarrow> write_mem m p xs q \<noteq> None"
  by (induction xs arbitrary: m p) auto

lemma load_write_mem: "load (write_mem m p xs) p (length xs) = Some xs"
  by (simp add: load_Some_iff write_mem_inside)

lemma load_write_mem_cell:
  assumes "length d = n" and "c \<notin> {g ..< g + n}"
  shows "load ((write_mem m g d)(c \<mapsto> v)) g n = Some d"
proof -
  have "((write_mem m g d)(c \<mapsto> v)) (g + i) = Some (d ! i)" if "i < n" for i
    using that assms by (auto simp: write_mem_inside)
  then show ?thesis using assms(1) by (simp add: load_Some_iff)
qed

lemma store_cell: "m c \<noteq> None \<Longrightarrow> store m c [v] = Some (m(c \<mapsto> v))"
  by (simp add: store_def allocated_def)

lemma store_cell_frame: "store m c [v] = Some m' \<Longrightarrow> q \<noteq> c \<Longrightarrow> m' q = m q"
  by (auto simp: store_def split: if_splits)

lemma store_Some: "allocated m p (length xs) \<Longrightarrow> store m p xs = Some (write_mem m p xs)"
  by (simp add: store_def)

lemma load_memory_of:
  "p + n \<le> length xs \<Longrightarrow> load (memory_of xs) p n = Some (take n (drop p xs))"
  by (simp add: load_Some_iff memory_of_def)

lemma allocated_memory_of: "p + n \<le> length xs \<Longrightarrow> allocated (memory_of xs) p n"
  by (simp add: allocated_iff memory_of_def)

section \<open>The norm and the cost\<close>

lemma norm_MatrixXd_frobenius: "norm_MatrixXd M = frobenius_norm (coeffs M)"
  by (simp add: norm_MatrixXd_def squaredNorm_def frobenius_norm_def power2_eq_square)

lemma frobenius_norm_zero: "frobenius_norm (replicate n 0) = 0"
  by (induction n) (simp_all add: frobenius_norm_def)

lemma frobenius_norm_single: "frobenius_norm [x] = \<bar>x\<bar>"
  by (simp add: frobenius_norm_def)

lemma frobenius_0200: "frobenius_norm [0, 2, 0, 0] = 2"
  by (simp add: frobenius_norm_def)

lemma map2_minus_self: "map2 (-) xs xs = replicate (length xs) (0::real)"
  by (induction xs) simp_all

lemma frobenius_norm_uminus:
  "frobenius_norm (map2 (-) (map uminus xs) (map uminus ys)) = frobenius_norm (map2 (-) xs ys)"
proof -
  have "map2 (-) (map uminus xs) (map uminus ys) = map uminus (map2 (-) xs ys)"
    by (simp add: zip_map_map case_prod_unfold)
  then show ?thesis
    by (simp add: frobenius_norm_def comp_def)
qed

lemma costFrobenius_Some:
  "costFrobenius \<lparr>rows = r, cols = k, coeffs = avs\<rparr> \<lparr>rows = r, cols = k, coeffs = xs\<rparr> =
     Some (0.5 * frobenius_norm (map2 (-) xs avs))"
  by (simp add: costFrobenius_def minus_MatrixXd_def norm_MatrixXd_frobenius)

lemma costGradientFrobenius_Some:
  assumes "length xs = r * k" and "length avs = r * k" and "allocated m g (r * k)"
  shows "costGradientFrobenius \<lparr>rows = r, cols = k, coeffs = avs\<rparr> m
           \<lparr>rows = r, cols = k, coeffs = xs\<rparr> \<lparr>map_data = g, map_rows = r, map_cols = k\<rparr> =
         Some (0.5 * frobenius_norm (map2 (-) xs avs), write_mem m g (map2 (-) xs avs))"
proof -
  let ?d = "map2 (-) xs avs"
  have len: "length ?d = r * k" using assms by simp
  have st: "store m g ?d = Some (write_mem m g ?d)"
    using assms(3) len by (simp add: store_Some)
  have ld: "load (write_mem m g ?d) g (r * k) = Some ?d"
    using load_write_mem [of m g ?d] len by simp
  show ?thesis
    using len st ld
    by (simp add: costGradientFrobenius_def gradientFrobenius_def minus_MatrixXd_def
        Map_assign_def Map_eval_def norm_MatrixXd_frobenius)
qed

lemma costGradientFrobenius_cost:
  assumes "costGradientFrobenius a m X Grad = Some (c, m')"
  shows "costFrobenius a X = Some c"
proof -
  from assms obtain d G where d: "minus_MatrixXd X a = Some d"
    and st: "Map_assign m Grad d = Some m'"
    and G: "Map_eval m' Grad = Some G" and c: "c = 0.5 * norm_MatrixXd G"
    by (auto simp: costGradientFrobenius_def gradientFrobenius_def Let_def
        split: Option.bind_splits)
  from st have m': "m' = write_mem m (map_data Grad) (coeffs d)"
    and len: "length (coeffs d) = map_rows Grad * map_cols Grad"
    by (auto simp: Map_assign_def store_def split: if_splits)
  have "load m' (map_data Grad) (map_rows Grad * map_cols Grad) = Some (coeffs d)"
    using load_write_mem [of m "map_data Grad" "coeffs d"] m' len by simp
  with G have "coeffs G = coeffs d"
    by (auto simp: Map_eval_def)
  then have "norm_MatrixXd G = norm_MatrixXd d"
    by (simp add: norm_MatrixXd_def squaredNorm_def)
  with d c show ?thesis
    by (simp add: costFrobenius_def)
qed

lemma costGradientFrobenius_frame:
  assumes "costGradientFrobenius a m X Grad = Some (c, m')"
  shows "q \<notin> {map_data Grad ..< map_data Grad + map_rows Grad * map_cols Grad} \<Longrightarrow> m' q = m q"
proof -
  assume out: "q \<notin> {map_data Grad ..< map_data Grad + map_rows Grad * map_cols Grad}"
  from assms obtain d where d: "Map_assign m Grad d = Some m'"
    by (auto simp: costGradientFrobenius_def Let_def split: Option.bind_splits)
  then have "m' = write_mem m (map_data Grad) (coeffs d)"
    and "length (coeffs d) = map_rows Grad * map_cols Grad"
    by (auto simp: Map_assign_def store_def split: if_splits)
  with out show ?thesis by (simp add: write_mem_outside)
qed

section \<open>What \<^verbatim>\<open>Evaluate\<close> computes\<close>

lemma Map_eval_Some:
  "load m p (r * k) = Some xs \<Longrightarrow>
     Map_eval m \<lparr>map_data = p, map_rows = r, map_cols = k\<rparr> = Some \<lparr>rows = r, cols = k, coeffs = xs\<rparr>"
  by (simp add: Map_eval_def)

lemma deref_A_Some:
  "load (heap w) (m_data (A w)) (m_rows (A w) * m_cols (A w)) = Some avs \<Longrightarrow>
     deref_A w = Some \<lparr>rows = m_rows (A w), cols = m_cols (A w), coeffs = avs\<rparr>"
  by (simp add: deref_A_def)

lemma Evaluate_no_gradient:
  assumes "load (heap w) parameters (m_rows (A w) * m_cols (A w)) = Some xs"
    and "load (heap w) (m_data (A w)) (m_rows (A w) * m_cols (A w)) = Some avs"
    and "heap w cost \<noteq> None"
  shows "Evaluate w parameters cost None =
    Some (True, w\<lparr>heap := (heap w)(cost \<mapsto> 0.5 * frobenius_norm (map2 (-) xs avs))\<rparr>)"
  using assms
  by (simp add: Evaluate_def Map_eval_Some deref_A_Some costFrobenius_Some store_cell)

lemma Evaluate_gradient:
  assumes "load (heap w) parameters (m_rows (A w) * m_cols (A w)) = Some xs"
    and "load (heap w) (m_data (A w)) (m_rows (A w) * m_cols (A w)) = Some avs"
    and "heap w cost \<noteq> None"
    and "allocated (heap w) g (m_rows (A w) * m_cols (A w))"
  shows "Evaluate w parameters cost (Some g) =
    Some (True, w\<lparr>heap := (write_mem (heap w) g (map2 (-) xs avs))
                      (cost \<mapsto> 0.5 * frobenius_norm (map2 (-) xs avs))\<rparr>)"
proof -
  have "write_mem (heap w) g (map2 (-) xs avs) cost \<noteq> None"
    using assms(3) by (rule write_mem_allocated)
  then show ?thesis
    using assms load_length [OF assms(1)] load_length [OF assms(2)]
    by (simp add: Evaluate_def Map_eval_Some deref_A_Some costGradientFrobenius_Some store_cell)
qed

text \<open>The example world is well formed for a call with or without a gradient.\<close>

lemma example_dims: "m_rows (A example_world) * m_cols (A example_world) = 4"
  by (simp add: example_world_def)

lemma example_X:
  "load (heap example_world) 4 (m_rows (A example_world) * m_cols (A example_world)) =
     Some [1, 4, 3, 4]"
  by (simp add: example_world_def load_memory_of)

lemma example_A:
  "load (heap example_world) (m_data (A example_world))
     (m_rows (A example_world) * m_cols (A example_world)) = Some [1, 2, 3, 4]"
  by (simp add: example_world_def load_memory_of)

lemma example_cost: "heap example_world 8 \<noteq> None"
  by (simp add: example_world_def memory_of_def)

lemma example_grad:
  "allocated (heap example_world) 9 (m_rows (A example_world) * m_cols (A example_world))"
  by (simp add: example_world_def allocated_memory_of)

section \<open>The cost and the gradient\<close>

text \<open>
  C2: with a gradient request (the gradient buffer allocated), \<^verbatim>\<open>Evaluate\<close> writes
  the coefficients of \<open>X - A\<close>, as they are, into the gradient buffer and then the cost
  into the cost cell: the difference is neither scaled by one half nor divided by the
  norm. The gradient buffer holds \<open>X - A\<close> right after the assignment, and still does
  when the call returns if the cost cell is not one of its cells.
\<close>

theorem Evaluate_writes_gradient:
  assumes "load (heap w) parameters (m_rows (A w) * m_cols (A w)) = Some xs"
    and "load (heap w) (m_data (A w)) (m_rows (A w) * m_cols (A w)) = Some avs"
    and "heap w cost \<noteq> None"
    and "allocated (heap w) g (m_rows (A w) * m_cols (A w))"
  shows "Evaluate w parameters cost (Some g) =
      Some (True, w\<lparr>heap := (write_mem (heap w) g (map2 (-) xs avs))
                        (cost \<mapsto> 0.5 * frobenius_norm (map2 (-) xs avs))\<rparr>)
    \<and> load (write_mem (heap w) g (map2 (-) xs avs)) g (m_rows (A w) * m_cols (A w)) =
        Some (map2 (-) xs avs)
    \<and> (cost \<notin> {g ..< g + m_rows (A w) * m_cols (A w)} \<longrightarrow>
        load ((write_mem (heap w) g (map2 (-) xs avs))
                (cost \<mapsto> 0.5 * frobenius_norm (map2 (-) xs avs)))
          g (m_rows (A w) * m_cols (A w)) = Some (map2 (-) xs avs))"
proof -
  have len: "length (map2 (-) xs avs) = m_rows (A w) * m_cols (A w)"
    using load_length [OF assms(1)] load_length [OF assms(2)] by simp
  have "load (write_mem (heap w) g (map2 (-) xs avs)) g (m_rows (A w) * m_cols (A w)) =
      Some (map2 (-) xs avs)"
    using load_write_mem [of "heap w" g "map2 (-) xs avs"] len by simp
  with Evaluate_gradient [OF assms] load_write_mem_cell [OF len] show ?thesis
    by blast
qed

theorem Evaluate_writes_gradient_witness:
  "load (heap example_world) 4 (m_rows (A example_world) * m_cols (A example_world)) =
     Some [1, 4, 3, 4]
   \<and> load (heap example_world) (m_data (A example_world))
        (m_rows (A example_world) * m_cols (A example_world)) = Some [1, 2, 3, 4]
   \<and> heap example_world 8 \<noteq> None
   \<and> allocated (heap example_world) 9 (m_rows (A example_world) * m_cols (A example_world))
   \<and> 8 \<notin> {9 ..< 9 + m_rows (A example_world) * m_cols (A example_world)}
   \<and> Evaluate example_world 4 8 (Some 9) =
       Some (True, example_world\<lparr>heap := (write_mem (heap example_world) 9 [0, 2, 0, 0])(8 \<mapsto> 1)\<rparr>)
   \<and> load ((write_mem (heap example_world) 9 [0, 2, 0, 0])(8 \<mapsto> 1)) 9 4 = Some [0, 2, 0, 0]"
  using Evaluate_writes_gradient [OF example_X example_A example_cost example_grad]
    example_X example_A example_cost example_grad
  by (simp add: frobenius_0200 example_dims)

text \<open>
  C3, as the code has it: on a well formed input (the parameter buffer and the target
  hold \<open>rows * cols\<close> coefficients, the cost cell is valid, and for a gradient request
  the gradient buffer is allocated) \<^verbatim>\<open>Evaluate\<close> returns \<open>true\<close>; there is no failure
  result. The world after the call is the world before with the cost cell set and, for
  a gradient request, the gradient buffer written, and what is written depends on the
  coefficients of \<open>A\<close> and \<open>X\<close> alone. Evaluating again without a gradient request at the
  same \<open>X\<close> gives the same cost and changes nothing, provided the cost cell is not a
  cell of the storage of \<open>A\<close>.
\<close>

theorem Evaluate_succeeds:
  assumes "load (heap w) parameters (m_rows (A w) * m_cols (A w)) = Some xs"
    and "load (heap w) (m_data (A w)) (m_rows (A w) * m_cols (A w)) = Some avs"
    and "heap w cost \<noteq> None"
    and "allocated (heap w) g (m_rows (A w) * m_cols (A w))"
  shows "Evaluate w parameters cost None =
      Some (True, w\<lparr>heap := (heap w)(cost \<mapsto> 0.5 * frobenius_norm (map2 (-) xs avs))\<rparr>)
    \<and> Evaluate w parameters cost (Some g) =
        Some (True, w\<lparr>heap := (write_mem (heap w) g (map2 (-) xs avs))
                          (cost \<mapsto> 0.5 * frobenius_norm (map2 (-) xs avs))\<rparr>)
    \<and> (load ((heap w)(cost \<mapsto> 0.5 * frobenius_norm (map2 (-) xs avs))) parameters
            (m_rows (A w) * m_cols (A w)) = Some xs
        \<and> cost \<notin> storage (A w)
        \<longrightarrow> Evaluate (w\<lparr>heap := (heap w)(cost \<mapsto> 0.5 * frobenius_norm (map2 (-) xs avs))\<rparr>)
              parameters cost None =
            Some (True, w\<lparr>heap := (heap w)(cost \<mapsto> 0.5 * frobenius_norm (map2 (-) xs avs))\<rparr>))"
proof -
  let ?n = "m_rows (A w) * m_cols (A w)"
  let ?c = "0.5 * frobenius_norm (map2 (-) xs avs)"
  let ?w1 = "w\<lparr>heap := (heap w)(cost \<mapsto> ?c)\<rparr>"
  have first: "Evaluate w parameters cost None = Some (True, ?w1)"
    using assms(1-3) by (rule Evaluate_no_gradient)
  have grad: "Evaluate w parameters cost (Some g) =
      Some (True, w\<lparr>heap := (write_mem (heap w) g (map2 (-) xs avs))(cost \<mapsto> ?c)\<rparr>)"
    using assms by (rule Evaluate_gradient)
  have again: "Evaluate ?w1 parameters cost None = Some (True, ?w1)"
    if x: "load (heap ?w1) parameters ?n = Some xs" and out: "cost \<notin> storage (A w)"
  proof -
    have "load (heap ?w1) (m_data (A w)) ?n = load (heap w) (m_data (A w)) ?n"
    proof (rule load_cong)
      fix i assume "i < ?n"
      then have "m_data (A w) + i \<in> storage (A w)"
        by (simp add: storage_def)
      with out have "m_data (A w) + i \<noteq> cost" by blast
      then show "heap ?w1 (m_data (A w) + i) = heap w (m_data (A w) + i)"
        by simp
    qed
    with assms(2) have a: "load (heap ?w1) (m_data (A w)) ?n = Some avs"
      by simp
    have "Evaluate ?w1 parameters cost None =
        Some (True, ?w1\<lparr>heap := (heap ?w1)(cost \<mapsto> ?c)\<rparr>)"
      by (rule Evaluate_no_gradient) (use x a in simp_all)
    then show ?thesis by simp
  qed
  from first grad again show ?thesis by simp
qed

theorem Evaluate_succeeds_witness:
  "load (heap example_world) 4 (m_rows (A example_world) * m_cols (A example_world)) =
     Some [1, 4, 3, 4]
   \<and> load (heap example_world) (m_data (A example_world))
        (m_rows (A example_world) * m_cols (A example_world)) = Some [1, 2, 3, 4]
   \<and> heap example_world 8 \<noteq> None
   \<and> allocated (heap example_world) 9 (m_rows (A example_world) * m_cols (A example_world))
   \<and> load ((heap example_world)(8 \<mapsto> 1)) 4
        (m_rows (A example_world) * m_cols (A example_world)) = Some [1, 4, 3, 4]
   \<and> 8 \<notin> storage (A example_world)
   \<and> Evaluate example_world 4 8 None =
       Some (True, example_world\<lparr>heap := (heap example_world)(8 \<mapsto> 1)\<rparr>)
   \<and> Evaluate example_world 4 8 (Some 9) =
       Some (True, example_world\<lparr>heap := (write_mem (heap example_world) 9 [0, 2, 0, 0])(8 \<mapsto> 1)\<rparr>)
   \<and> Evaluate (example_world\<lparr>heap := (heap example_world)(8 \<mapsto> 1)\<rparr>) 4 8 None =
       Some (True, example_world\<lparr>heap := (heap example_world)(8 \<mapsto> 1)\<rparr>)"
proof -
  have x1: "load ((heap example_world)(8 \<mapsto> 1)) 4
      (m_rows (A example_world) * m_cols (A example_world)) = Some [1, 4, 3, 4]"
    using example_X by (simp add: example_dims load_Some_iff)
  have out: "8 \<notin> storage (A example_world)"
    by (simp add: storage_def example_world_def)
  note t = Evaluate_succeeds [OF example_X example_A example_cost example_grad]
  have t1: "Evaluate example_world 4 8 None =
      Some (True, example_world\<lparr>heap := (heap example_world)(8 \<mapsto> 1)\<rparr>)"
    using t [THEN conjunct1] by (simp add: frobenius_0200)
  have t2: "Evaluate example_world 4 8 (Some 9) =
      Some (True, example_world\<lparr>heap := (write_mem (heap example_world) 9 [0, 2, 0, 0])(8 \<mapsto> 1)\<rparr>)"
    using t [THEN conjunct2, THEN conjunct1] by (simp add: frobenius_0200 del: write_mem.simps)
  have t3: "Evaluate (example_world\<lparr>heap := (heap example_world)(8 \<mapsto> 1)\<rparr>) 4 8 None =
      Some (True, example_world\<lparr>heap := (heap example_world)(8 \<mapsto> 1)\<rparr>)"
    using t [THEN conjunct2, THEN conjunct2] x1 out by (simp add: frobenius_0200)
  from example_X example_A example_cost example_grad x1 out t1 t2 t3 show ?thesis
    by (intro conjI)
qed

text \<open>
  C3 as stated fails where the cost cell is a cell of the storage of \<open>A\<close>: for the 1 by 1
  target 1 at address 0 and the candidate 5 at address 1, \<^verbatim>\<open>Evaluate(1, 0, NULL)\<close>
  writes the cost 2 over the target, and the same call again, at the same \<open>X\<close>, writes
  the cost \<open>3 / 2\<close>.
\<close>

theorem Evaluate_succeeds_counterexample:
  "load (memory_of [1, 5]) 1 (1 * 1) = Some [5]
   \<and> load (memory_of [1, 5]) 0 (1 * 1) = Some [1]
   \<and> memory_of [1, 5] 0 \<noteq> None
   \<and> Evaluate \<lparr>A = \<lparr>m_data = 0, m_rows = 1, m_cols = 1\<rparr>, heap = memory_of [1, 5]\<rparr> 1 0 None =
       Some (True, \<lparr>A = \<lparr>m_data = 0, m_rows = 1, m_cols = 1\<rparr>,
                    heap = (memory_of [1, 5])(0 \<mapsto> 2)\<rparr>)
   \<and> load ((memory_of [1, 5])(0 \<mapsto> 2)) 1 (1 * 1) = Some [5]
   \<and> Evaluate \<lparr>A = \<lparr>m_data = 0, m_rows = 1, m_cols = 1\<rparr>,
                heap = (memory_of [1, 5])(0 \<mapsto> 2)\<rparr> 1 0 None =
       Some (True, \<lparr>A = \<lparr>m_data = 0, m_rows = 1, m_cols = 1\<rparr>,
                    heap = (memory_of [1, 5])(0 \<mapsto> 3 / 2)\<rparr>)
   \<and> (2 :: real) \<noteq> 3 / 2"
proof -
  let ?w = "\<lparr>A = \<lparr>m_data = 0, m_rows = 1, m_cols = 1\<rparr>, heap = memory_of [1, 5]\<rparr>"
  let ?w1 = "\<lparr>A = \<lparr>m_data = 0, m_rows = 1, m_cols = 1\<rparr>, heap = (memory_of [1, 5])(0 \<mapsto> 2)\<rparr>"
  have x: "load (heap ?w) 1 (m_rows (A ?w) * m_cols (A ?w)) = Some [5]"
    by (simp add: load_memory_of)
  have a: "load (heap ?w) (m_data (A ?w)) (m_rows (A ?w) * m_cols (A ?w)) = Some [1]"
    by (simp add: load_memory_of)
  have c: "heap ?w 0 \<noteq> None"
    by (simp add: memory_of_def)
  have e1: "Evaluate ?w 1 0 None = Some (True, ?w1)"
    using Evaluate_no_gradient [OF x a c] by (simp add: frobenius_norm_single)
  have x1: "load (heap ?w1) 1 (m_rows (A ?w1) * m_cols (A ?w1)) = Some [5]"
    by (simp add: load_Some_iff memory_of_def)
  have a1: "load (heap ?w1) (m_data (A ?w1)) (m_rows (A ?w1) * m_cols (A ?w1)) = Some [2]"
    by (simp add: load_Some_iff)
  have c1: "heap ?w1 0 \<noteq> None"
    by simp
  have e2: "Evaluate ?w1 1 0 None =
      Some (True, \<lparr>A = \<lparr>m_data = 0, m_rows = 1, m_cols = 1\<rparr>,
                   heap = (memory_of [1, 5])(0 \<mapsto> 3 / 2)\<rparr>)"
    using Evaluate_no_gradient [OF x1 a1 c1] by (simp add: frobenius_norm_single)
  from x a c e1 x1 e2 show ?thesis
    by simp
qed

text \<open>
  C9: on a well formed input the cost \<^verbatim>\<open>Evaluate\<close> writes with a gradient request is
  the cost it writes without one, one half of the Frobenius norm of \<open>X - A\<close>; and
  whenever \<^verbatim>\<open>costGradientFrobenius\<close> returns a cost, \<^verbatim>\<open>costFrobenius\<close> returns the
  same.
\<close>

theorem Evaluate_same_cost:
  assumes "load (heap w) parameters (m_rows (A w) * m_cols (A w)) = Some xs"
    and "load (heap w) (m_data (A w)) (m_rows (A w) * m_cols (A w)) = Some avs"
    and "heap w cost \<noteq> None"
    and "allocated (heap w) g (m_rows (A w) * m_cols (A w))"
  shows "(\<exists>w1 w2. Evaluate w parameters cost None = Some (True, w1)
            \<and> Evaluate w parameters cost (Some g) = Some (True, w2)
            \<and> heap w1 cost = heap w2 cost
            \<and> heap w2 cost = Some (0.5 * frobenius_norm (map2 (-) xs avs)))
    \<and> (\<forall>a m X Grad c m'. costGradientFrobenius a m X Grad = Some (c, m') \<longrightarrow>
          costFrobenius a X = Some c)"
proof -
  have "\<exists>w1 w2. Evaluate w parameters cost None = Some (True, w1)
            \<and> Evaluate w parameters cost (Some g) = Some (True, w2)
            \<and> heap w1 cost = heap w2 cost
            \<and> heap w2 cost = Some (0.5 * frobenius_norm (map2 (-) xs avs))"
    using Evaluate_no_gradient [OF assms(1-3)] Evaluate_gradient [OF assms] by simp
  then show ?thesis
    using costGradientFrobenius_cost by blast
qed

theorem Evaluate_same_cost_witness:
  "load (heap example_world) 4 (m_rows (A example_world) * m_cols (A example_world)) =
     Some [1, 4, 3, 4]
   \<and> load (heap example_world) (m_data (A example_world))
        (m_rows (A example_world) * m_cols (A example_world)) = Some [1, 2, 3, 4]
   \<and> heap example_world 8 \<noteq> None
   \<and> allocated (heap example_world) 9 (m_rows (A example_world) * m_cols (A example_world))
   \<and> (\<exists>w1 w2. Evaluate example_world 4 8 None = Some (True, w1)
            \<and> Evaluate example_world 4 8 (Some 9) = Some (True, w2)
            \<and> heap w1 8 = heap w2 8 \<and> heap w2 8 = Some 1)
   \<and> costGradientFrobenius \<lparr>rows = 2, cols = 2, coeffs = [1, 2, 3, 4]\<rparr> (heap example_world)
        \<lparr>rows = 2, cols = 2, coeffs = [1, 4, 3, 4]\<rparr> \<lparr>map_data = 9, map_rows = 2, map_cols = 2\<rparr> =
       Some (1, write_mem (heap example_world) 9 [0, 2, 0, 0])
   \<and> costFrobenius \<lparr>rows = 2, cols = 2, coeffs = [1, 2, 3, 4]\<rparr>
        \<lparr>rows = 2, cols = 2, coeffs = [1, 4, 3, 4]\<rparr> = Some 1"
proof -
  have cg: "costGradientFrobenius \<lparr>rows = 2, cols = 2, coeffs = [1, 2, 3, 4]\<rparr> (heap example_world)
        \<lparr>rows = 2, cols = 2, coeffs = [1, 4, 3, 4]\<rparr> \<lparr>map_data = 9, map_rows = 2, map_cols = 2\<rparr> =
       Some (1, write_mem (heap example_world) 9 [0, 2, 0, 0])"
    using costGradientFrobenius_Some [of "[1, 4, 3, 4]" 2 2 "[1, 2, 3, 4]" "heap example_world" 9]
      example_grad
    by (simp add: frobenius_0200 example_dims)
  note all = Evaluate_same_cost [OF example_X example_A example_cost example_grad]
  from all cg have "costFrobenius \<lparr>rows = 2, cols = 2, coeffs = [1, 2, 3, 4]\<rparr>
        \<lparr>rows = 2, cols = 2, coeffs = [1, 4, 3, 4]\<rparr> = Some 1"
    by blast
  with all cg example_X example_A example_cost example_grad show ?thesis
    by (simp add: frobenius_0200)
qed

text \<open>
  C6: where the parameter buffer holds the coefficients of the target itself
  (\<open>X = A\<close>, of any dimensions, square ones included), the cost written is 0, with
  and without a gradient request, and the gradient buffer holds the zero matrix after
  the call.
\<close>

theorem Evaluate_at_target:
  assumes "load (heap w) parameters (m_rows (A w) * m_cols (A w)) = Some avs"
    and "load (heap w) (m_data (A w)) (m_rows (A w) * m_cols (A w)) = Some avs"
    and "heap w cost \<noteq> None"
    and "allocated (heap w) g (m_rows (A w) * m_cols (A w))"
  shows "Evaluate w parameters cost None = Some (True, w\<lparr>heap := (heap w)(cost \<mapsto> 0)\<rparr>)
    \<and> Evaluate w parameters cost (Some g) =
        Some (True, w\<lparr>heap := (write_mem (heap w) g (replicate (m_rows (A w) * m_cols (A w)) 0))
                          (cost \<mapsto> 0)\<rparr>)
    \<and> load ((write_mem (heap w) g (replicate (m_rows (A w) * m_cols (A w)) 0))(cost \<mapsto> 0)) g
         (m_rows (A w) * m_cols (A w)) = Some (replicate (m_rows (A w) * m_cols (A w)) 0)"
proof -
  let ?n = "m_rows (A w) * m_cols (A w)"
  have d: "map2 (-) avs avs = replicate ?n 0"
    using load_length [OF assms(1)] by (simp add: map2_minus_self)
  have "((write_mem (heap w) g (replicate ?n 0))(cost \<mapsto> 0)) (g + i) = Some (replicate ?n 0 ! i)"
    if "i < ?n" for i
    using that write_mem_inside [of i "replicate ?n 0" "heap w" g] by simp
  then have "load ((write_mem (heap w) g (replicate ?n 0))(cost \<mapsto> 0)) g ?n = Some (replicate ?n 0)"
    by (simp add: load_Some_iff)
  with Evaluate_no_gradient [OF assms(1-3)] Evaluate_gradient [OF assms] d show ?thesis
    by (simp add: frobenius_norm_zero)
qed

theorem Evaluate_at_target_witness:
  "load (heap example_world) 0 (m_rows (A example_world) * m_cols (A example_world)) =
     Some [1, 2, 3, 4]
   \<and> load (heap example_world) (m_data (A example_world))
        (m_rows (A example_world) * m_cols (A example_world)) = Some [1, 2, 3, 4]
   \<and> heap example_world 8 \<noteq> None
   \<and> allocated (heap example_world) 9 (m_rows (A example_world) * m_cols (A example_world))
   \<and> Evaluate example_world 0 8 None =
       Some (True, example_world\<lparr>heap := (heap example_world)(8 \<mapsto> 0)\<rparr>)
   \<and> Evaluate example_world 0 8 (Some 9) =
       Some (True, example_world\<lparr>heap := (write_mem (heap example_world) 9 [0, 0, 0, 0])(8 \<mapsto> 0)\<rparr>)
   \<and> load ((write_mem (heap example_world) 9 [0, 0, 0, 0])(8 \<mapsto> 0)) 9 4 = Some [0, 0, 0, 0]"
proof -
  have x: "load (heap example_world) 0 (m_rows (A example_world) * m_cols (A example_world)) =
      Some [1, 2, 3, 4]"
    using example_A by (simp add: example_world_def)
  have r: "replicate 4 (0::real) = [0, 0, 0, 0]"
    by (simp add: numeral_eq_Suc)
  from Evaluate_at_target [OF x example_A example_cost example_grad]
    x example_A example_cost example_grad
  show ?thesis
    by (simp add: example_dims r)
qed

section \<open>The symmetry of the cost\<close>

text \<open>
  C7: the cost of \<open>- X\<close> against the target \<open>- A\<close> is the cost of \<open>X\<close> against \<open>A\<close>
  (both are an Eigen assertion failure when the dimensions differ).
\<close>

theorem costFrobenius_negation:
  "costFrobenius (uminus_MatrixXd a) (uminus_MatrixXd X) = costFrobenius a X"
  by (simp add: costFrobenius_def minus_MatrixXd_def uminus_MatrixXd_def
      norm_MatrixXd_frobenius frobenius_norm_uminus)

theorem costFrobenius_negation_witness:
  "costFrobenius \<lparr>rows = 2, cols = 2, coeffs = [1, 2, 3, 4]\<rparr>
      \<lparr>rows = 2, cols = 2, coeffs = [1, 4, 3, 4]\<rparr> = Some 1
   \<and> costFrobenius \<lparr>rows = 2, cols = 2, coeffs = [- 1, - 2, - 3, - 4]\<rparr>
      \<lparr>rows = 2, cols = 2, coeffs = [- 1, - 4, - 3, - 4]\<rparr> = Some 1"
  using costFrobenius_negation [of "\<lparr>rows = 2, cols = 2, coeffs = [1, 2, 3, 4]\<rparr>"
      "\<lparr>rows = 2, cols = 2, coeffs = [1, 4, 3, 4]\<rparr>"]
  by (simp add: costFrobenius_Some frobenius_0200 uminus_MatrixXd_def)

section \<open>The frame of the calls\<close>

lemma Evaluate_frame:
  assumes "Evaluate w parameters cost gradient = Some (b, w')"
  shows "A w' = A w \<and>
    (\<forall>q. q \<notin> buffers (m_rows (A w)) (m_cols (A w)) (CallEvaluate parameters cost gradient)
        \<longrightarrow> heap w' q = heap w q)"
proof (cases gradient)
  case None
  with assms obtain c h where "store (heap w) cost [c] = Some h" and "w' = w\<lparr>heap := h\<rparr>"
    by (auto simp: Evaluate_def Let_def split: Option.bind_splits)
  with None show ?thesis by (auto dest: store_cell_frame)
next
  case (Some g)
  let ?G = "\<lparr>map_data = g, map_rows = m_rows (A w), map_cols = m_cols (A w)\<rparr>"
  from Some assms obtain a X c h1 h2 where
    cg: "costGradientFrobenius a (heap w) X ?G = Some (c, h1)"
    and st: "store h1 cost [c] = Some h2" and w': "w' = w\<lparr>heap := h2\<rparr>"
    by (auto simp: Evaluate_def Let_def split: Option.bind_splits)
  have "heap w' q = heap w q"
    if "q \<noteq> cost" and "q \<notin> {g ..< g + m_rows (A w) * m_cols (A w)}" for q
  proof -
    have "h2 q = h1 q" using st that(1) by (rule store_cell_frame)
    moreover have "h1 q = heap w q"
      using costGradientFrobenius_frame [OF cg, of q] that(2) by simp
    ultimately show ?thesis by (simp add: w')
  qed
  with Some w' show ?thesis by simp
qed

lemma step_frame:
  assumes "step w c = Some w'"
  shows "A w' = A w \<and>
    (\<forall>q. q \<notin> buffers (m_rows (A w)) (m_cols (A w)) c \<longrightarrow> heap w' q = heap w q)"
proof (cases c)
  case (CallEvaluate parameters cost gradient)
  with assms obtain b where "Evaluate w parameters cost gradient = Some (b, w')"
    by auto
  from Evaluate_frame [OF this] CallEvaluate show ?thesis by simp
next
  case (CallCostFrobenius X)
  with assms show ?thesis by (auto split: Option.bind_splits)
next
  case (CallGradientFrobenius X)
  with assms show ?thesis by (auto split: Option.bind_splits)
next
  case CallNumParameters
  with assms show ?thesis by simp
qed

lemma run_frame:
  "run w cs = Some w' \<Longrightarrow>
     A w' = A w \<and>
     (\<forall>q. q \<notin> (\<Union>c\<in>set cs. buffers (m_rows (A w)) (m_cols (A w)) c) \<longrightarrow> heap w' q = heap w q)"
proof (induction cs arbitrary: w)
  case Nil
  then show ?case by simp
next
  case (Cons c cs)
  from Cons.prems obtain w1 where s: "step w c = Some w1" and r: "run w1 cs = Some w'"
    by (auto split: Option.bind_splits)
  from step_frame [OF s] Cons.IH [OF r] show ?case by simp
qed

lemma deref_A_frame:
  assumes "A w' = A w" and "\<And>q. q \<in> storage (A w) \<Longrightarrow> heap w' q = heap w q"
  shows "deref_A w' = deref_A w"
proof -
  have "load (heap w') (m_data (A w)) (m_rows (A w) * m_cols (A w)) =
        load (heap w) (m_data (A w)) (m_rows (A w) * m_cols (A w))"
    by (rule load_cong) (simp add: assms(2) storage_def)
  then show ?thesis by (simp add: deref_A_def assms(1))
qed

text \<open>
  C5, as the code has it: after any sequence of calls of \<^verbatim>\<open>Evaluate\<close>,
  \<^verbatim>\<open>costFrobenius\<close>, \<^verbatim>\<open>gradientFrobenius\<close> and \<^verbatim>\<open>NumParameters\<close> that runs, the
  matrix object behind the reference has the dimensions and the storage it had, every
  cell outside the cost and gradient buffers the calls supplied holds what it held, and
  so the value of \<open>A\<close> is unchanged when none of these buffers overlaps the storage of
  \<open>A\<close>.
\<close>

theorem run_frame_target:
  assumes "run w cs = Some w'"
  shows "A w' = A w
    \<and> (\<forall>q. q \<notin> (\<Union>c\<in>set cs. buffers (m_rows (A w)) (m_cols (A w)) c) \<longrightarrow> heap w' q = heap w q)
    \<and> ((\<Union>c\<in>set cs. buffers (m_rows (A w)) (m_cols (A w)) c) \<inter> storage (A w) = {} \<longrightarrow>
         deref_A w' = deref_A w)"
proof -
  note fr = run_frame [OF assms]
  have "deref_A w' = deref_A w"
    if "(\<Union>c\<in>set cs. buffers (m_rows (A w)) (m_cols (A w)) c) \<inter> storage (A w) = {}"
  proof (rule deref_A_frame)
    show "A w' = A w" using fr by simp
    show "heap w' q = heap w q" if "q \<in> storage (A w)" for q
      using fr that \<open>_ \<inter> storage (A w) = {}\<close> by blast
  qed
  with fr show ?thesis by blast
qed

text \<open>
  Five calls in the example world: an evaluation with the gradient, the parameter
  count, the cost and the gradient by value, and an evaluation without the gradient.
\<close>

theorem run_frame_target_witness:
  "run example_world
     [CallEvaluate 4 8 (Some 9), CallNumParameters,
      CallCostFrobenius \<lparr>rows = 2, cols = 2, coeffs = [1, 4, 3, 4]\<rparr>,
      CallGradientFrobenius \<lparr>rows = 2, cols = 2, coeffs = [1, 4, 3, 4]\<rparr>,
      CallEvaluate 4 8 None] =
     Some (example_world\<lparr>heap := (write_mem (heap example_world) 9 [0, 2, 0, 0])(8 \<mapsto> 1)\<rparr>)
   \<and> ({8} \<union> {9 ..< 13}) \<inter> storage (A example_world) = {}
   \<and> A (example_world\<lparr>heap := (write_mem (heap example_world) 9 [0, 2, 0, 0])(8 \<mapsto> 1)\<rparr>) =
       A example_world
   \<and> ((write_mem (heap example_world) 9 [0, 2, 0, 0])(8 \<mapsto> 1)) 3 = heap example_world 3
   \<and> deref_A (example_world\<lparr>heap := (write_mem (heap example_world) 9 [0, 2, 0, 0])(8 \<mapsto> 1)\<rparr>) =
       deref_A example_world
   \<and> deref_A example_world = Some \<lparr>rows = 2, cols = 2, coeffs = [1, 2, 3, 4]\<rparr>"
proof -
  let ?h1 = "(write_mem (heap example_world) 9 [0, 2, 0, 0])(8 \<mapsto> 1)"
  let ?w1 = "example_world\<lparr>heap := ?h1\<rparr>"
  let ?X = "\<lparr>rows = 2, cols = 2, coeffs = [1, 4, 3, 4]\<rparr>"
  let ?cs = "[CallEvaluate 4 8 (Some 9), CallNumParameters, CallCostFrobenius ?X,
      CallGradientFrobenius ?X, CallEvaluate 4 8 None]"
  have e1: "Evaluate example_world 4 8 (Some 9) = Some (True, ?w1)"
    using Evaluate_gradient [OF example_X example_A example_cost example_grad]
    by (simp add: frobenius_0200)
  have same: "?h1 q = heap example_world q" if "q < 8" for q
    using that by (simp add: write_mem_outside)
  have x1: "load (heap ?w1) 4 (m_rows (A ?w1) * m_cols (A ?w1)) = Some [1, 4, 3, 4]"
    using example_X load_cong [of 4 ?h1 4 "heap example_world"] same
    by (simp add: example_dims)
  have a1: "load (heap ?w1) (m_data (A ?w1)) (m_rows (A ?w1) * m_cols (A ?w1)) = Some [1, 2, 3, 4]"
    using example_A load_cong [of 4 ?h1 0 "heap example_world"] same
    by (simp add: example_dims example_world_def)
  have c1: "heap ?w1 8 \<noteq> None" by simp
  have d0: "deref_A example_world = Some \<lparr>rows = 2, cols = 2, coeffs = [1, 2, 3, 4]\<rparr>"
    using deref_A_Some [OF example_A] by (simp add: example_world_def)
  have d1: "deref_A ?w1 = Some \<lparr>rows = 2, cols = 2, coeffs = [1, 2, 3, 4]\<rparr>"
    using deref_A_Some [OF a1] by (simp add: example_world_def)
  have e2: "Evaluate ?w1 4 8 None = Some (True, ?w1)"
    using Evaluate_no_gradient [OF x1 a1 c1] by (simp add: frobenius_0200)
  have r: "run example_world ?cs = Some ?w1"
    by (simp add: e1 e2 d1 costFrobenius_Some gradientFrobenius_def minus_MatrixXd_def
        del: write_mem.simps)
  have b: "(\<Union>c\<in>set ?cs. buffers (m_rows (A example_world)) (m_cols (A example_world)) c) =
      {8} \<union> {9 ..< 13}"
    by (auto simp: example_world_def)
  have disj: "({8} \<union> {9 ..< 13}) \<inter> storage (A example_world) = {}"
    by (auto simp: storage_def example_world_def)
  note t = run_frame_target [OF r, unfolded b]
  have t1: "A ?w1 = A example_world"
    by (rule t [THEN conjunct1])
  have t2: "?h1 3 = heap example_world 3"
    using t [THEN conjunct2, THEN conjunct1, rule_format, of 3] by simp
  have t3: "deref_A ?w1 = deref_A example_world"
    using t [THEN conjunct2, THEN conjunct2, rule_format] disj by blast
  from r disj t1 t2 t3 d0 show ?thesis
    by (intro conjI)
qed

text \<open>
  C5 as stated fails where a call supplies the storage of \<open>A\<close> as its gradient
  buffer: for the 1 by 1 target 1 at address 0, the candidate 3 at address 1 and the
  cost cell at address 2, \<^verbatim>\<open>Evaluate(1, 2, 0)\<close> leaves the target 2.
\<close>

theorem run_frame_target_counterexample:
  "deref_A \<lparr>A = \<lparr>m_data = 0, m_rows = 1, m_cols = 1\<rparr>, heap = memory_of [1, 3, 0]\<rparr> =
     Some \<lparr>rows = 1, cols = 1, coeffs = [1]\<rparr>
   \<and> Option.bind
       (run \<lparr>A = \<lparr>m_data = 0, m_rows = 1, m_cols = 1\<rparr>, heap = memory_of [1, 3, 0]\<rparr>
          [CallEvaluate 1 2 (Some 0)])
       deref_A =
     Some \<lparr>rows = 1, cols = 1, coeffs = [2]\<rparr>"
proof -
  let ?w = "\<lparr>A = \<lparr>m_data = 0, m_rows = 1, m_cols = 1\<rparr>, heap = memory_of [1, 3, 0]\<rparr>"
  have x: "load (heap ?w) 1 (m_rows (A ?w) * m_cols (A ?w)) = Some [3]"
    by (simp add: load_memory_of)
  have a: "load (heap ?w) (m_data (A ?w)) (m_rows (A ?w) * m_cols (A ?w)) = Some [1]"
    by (simp add: load_memory_of)
  have c: "heap ?w 2 \<noteq> None"
    by (simp add: memory_of_def)
  have g: "allocated (heap ?w) 0 (m_rows (A ?w) * m_cols (A ?w))"
    by (simp add: allocated_memory_of)
  have f: "frobenius_norm [2] = 2"
    by (simp add: frobenius_norm_def)
  have d0: "deref_A ?w = Some \<lparr>rows = 1, cols = 1, coeffs = [1]\<rparr>"
    using deref_A_Some [OF a] by simp
  have e: "Evaluate ?w 1 2 (Some 0) =
      Some (True, ?w\<lparr>heap := ((memory_of [1, 3, 0])(0 \<mapsto> 2))(2 \<mapsto> 1)\<rparr>)"
    using Evaluate_gradient [OF x a c g] by (simp add: f)
  have "load (((memory_of [1, 3, 0])(0 \<mapsto> 2))(2 \<mapsto> 1)) 0 1 = Some [2]"
    by (simp add: load_Some_iff)
  then have d1: "deref_A (?w\<lparr>heap := ((memory_of [1, 3, 0])(0 \<mapsto> 2))(2 \<mapsto> 1)\<rparr>) =
      Some \<lparr>rows = 1, cols = 1, coeffs = [2]\<rparr>"
    by (simp add: deref_A_def)
  from d0 e d1 show ?thesis by simp
qed

section \<open>The parameter count\<close>

lemma int_of_Index_id: "0 \<le> n \<Longrightarrow> n < 2 ^ 31 \<Longrightarrow> int_of_Index n = n"
  by (simp add: int_of_Index_def signed_take_bit_int_eq_self_iff)

text \<open>
  C4, as the code has it: the count is \<open>rows * cols\<close> when the product fits the 32-bit
  \<^verbatim>\<open>int\<close> of the interface, that is below \<open>2 ^ 31\<close>.
\<close>

theorem NumParameters_fits:
  "m_rows (A w) * m_cols (A w) < 2 ^ 31 \<Longrightarrow>
     NumParameters w = int (m_rows (A w) * m_cols (A w))"
proof -
  assume fits: "m_rows (A w) * m_cols (A w) < 2 ^ 31"
  have "int (m_rows (A w) * m_cols (A w)) < 2 ^ 31"
    using fits by (metis of_nat_less_iff of_nat_numeral of_nat_power)
  then have "int_of_Index (int (m_rows (A w)) * int (m_cols (A w))) =
      int (m_rows (A w)) * int (m_cols (A w))"
    by (intro int_of_Index_id) simp_all
  then show ?thesis by (simp add: NumParameters_def)
qed

text \<open>The 10 by 10 target of \<^verbatim>\<open>main\<close>: 100 parameters.\<close>

theorem NumParameters_fits_witness:
  "m_rows (A \<lparr>A = \<lparr>m_data = 0, m_rows = 10, m_cols = 10\<rparr>, heap = memory_of (replicate 100 0)\<rparr>)
     * m_cols (A \<lparr>A = \<lparr>m_data = 0, m_rows = 10, m_cols = 10\<rparr>, heap = memory_of (replicate 100 0)\<rparr>)
     < 2 ^ 31
   \<and> NumParameters \<lparr>A = \<lparr>m_data = 0, m_rows = 10, m_cols = 10\<rparr>,
                     heap = memory_of (replicate 100 0)\<rparr> = 100"
  using NumParameters_fits
    [of "\<lparr>A = \<lparr>m_data = 0, m_rows = 10, m_cols = 10\<rparr>, heap = memory_of (replicate 100 0)\<rparr>"]
  by simp

text \<open>
  C4 as stated fails for a large target: a 65536 by 32768 matrix has \<open>2 ^ 31\<close>
  coefficients (all of them allocated here), and the count reported is \<open>- 2 ^ 31\<close>.
\<close>

theorem NumParameters_counterexample:
  "allocated (memory_of (replicate (65536 * 32768) 0)) 0 (65536 * 32768)
   \<and> NumParameters \<lparr>A = \<lparr>m_data = 0, m_rows = 65536, m_cols = 32768\<rparr>,
                     heap = memory_of (replicate (65536 * 32768) 0)\<rparr> = - 2147483648
   \<and> NumParameters \<lparr>A = \<lparr>m_data = 0, m_rows = 65536, m_cols = 32768\<rparr>,
                     heap = memory_of (replicate (65536 * 32768) 0)\<rparr> \<noteq> 65536 * 32768"
proof -
  have "allocated (memory_of (replicate (65536 * 32768) 0)) 0 (65536 * 32768)"
    by (rule allocated_memory_of) (simp only: length_replicate add_0 order_refl)
  moreover have "signed_take_bit 31 (2147483648 :: int) = - 2147483648"
    by (simp add: signed_take_bit_eq_take_bit_minus)
  ultimately show ?thesis
    by (simp add: NumParameters_def int_of_Index_def)
qed

section \<open>The options of the solver\<close>

text \<open>
  C8: the driver calls the solver once, with options that hold 200 iterations at most,
  the two tolerances \<open>1e-8\<close>, the LBFGS direction, the Wolfe line search and the progress
  log per iteration to the standard output; the options depend neither on the problem
  nor on the solution, and no other field of the defaults is changed.
\<close>

theorem solveGradientProblem_options:
  "solveGradientProblem Solve defaults gradientProblem solution =
     Solve (configure defaults) gradientProblem (m_data solution)
   \<and> max_num_iterations (configure defaults) = 200
   \<and> function_tolerance (configure defaults) = 1 / 10 ^ 8
   \<and> gradient_tolerance (configure defaults) = 1 / 10 ^ 8
   \<and> line_search_direction_type (configure defaults) = LBFGS
   \<and> line_search_type (configure defaults) = WOLFE
   \<and> minimizer_progress_to_stdout (configure defaults) = True
   \<and> logging_type (configure defaults) = PER_MINIMIZER_ITERATION
   \<and> Options.more (configure defaults) = Options.more defaults"
  by (simp add: solveGradientProblem_def configure_def)

end
